theory Spec2Isabelle
  imports Main
begin

section \<open>gdal\_type\_traits.hpp: a template type to a GDAL data type\<close>

text \<open>
  The header resolves \<^verbatim>\<open>Convert<T>::value\<close> during compilation by template
  specialisation. A template whose arguments are values (a size, a flag) is a function
  of these values; picking the explicit specialisation that matches and the primary
  template otherwise is pattern matching with a final catch-all equation. A
  \<^verbatim>\<open>static_assert\<close> that fails stops the compilation: it is an error value.
\<close>

subsection \<open>The external enumeration\<close>

text \<open>
  Modelled from the spec: \<^verbatim>\<open>gdal.h\<close>, which declares \<^verbatim>\<open>GDALDataType\<close>, belongs to
  the external raster library and is not among the sources. The spec calls it "a fixed
  enumeration of raster pixel data types defined by an external geospatial raster
  library". The enumerators below are the eight the header names, and the complex pixel
  codes and the count sentinel that the library's enumeration has besides them.
\<close>

datatype GDALDataType =
    GDT_Unknown
  | GDT_Byte
  | GDT_UInt16
  | GDT_Int16
  | GDT_UInt32
  | GDT_Int32
  | GDT_Float32
  | GDT_Float64
  | GDT_CInt16
  | GDT_CInt32
  | GDT_CFloat32
  | GDT_CFloat64
  | GDT_TypeCount

subsection \<open>Types and the traits the header reads\<close>

text \<open>
  A C++ type, as far as \<^verbatim>\<open>sizeof\<close> and the traits of \<^verbatim>\<open><type_traits>\<close> that
  the header uses can tell types apart. \<open>Integer n s\<close> is an integer type of \<open>n\<close> bytes,
  signed when \<open>s\<close> holds; \<open>Floating n\<close> a floating-point type of \<open>n\<close> bytes;
  \<open>Enumeration U\<close> an enumeration whose underlying type is \<open>U\<close>; \<open>Pointer n\<close> and
  \<open>Class n\<close> a pointer and a class type of \<open>n\<close> bytes.
\<close>

datatype cpp_type =
    Bool
  | Integer nat bool
  | Floating nat
  | Enumeration cpp_type
  | Pointer nat
  | Class nat

text \<open>The header refuses to compile unless a byte has eight bits (lines 76-78).\<close>

definition CHAR_BIT :: nat where
  "CHAR_BIT = 8"

text \<open>
  \<^verbatim>\<open>sizeof(T)\<close>, in bytes. An enumeration has the size of its underlying type;
  \<^verbatim>\<open>sizeof(bool)\<close> is 1 on the platforms the library is built for.
\<close>

fun sizeof :: "cpp_type \<Rightarrow> nat" where
  "sizeof Bool = 1"
| "sizeof (Integer n s) = n"
| "sizeof (Floating n) = n"
| "sizeof (Enumeration U) = sizeof U"
| "sizeof (Pointer n) = n"
| "sizeof (Class n) = n"

text \<open>
  \<^verbatim>\<open>std::is_signed<T>::value\<close>: for an arithmetic type whether \<^verbatim>\<open>T(-1) < T(0)\<close>,
  and false for every other type, enumerations included.
\<close>

fun is_signed :: "cpp_type \<Rightarrow> bool" where
  "is_signed Bool = False"
| "is_signed (Integer n s) = s"
| "is_signed (Floating n) = True"
| "is_signed (Enumeration U) = False"
| "is_signed (Pointer n) = False"
| "is_signed (Class n) = False"

fun is_integral :: "cpp_type \<Rightarrow> bool" where
  "is_integral Bool = True"
| "is_integral (Integer n s) = True"
| "is_integral _ = False"

fun is_floating_point :: "cpp_type \<Rightarrow> bool" where
  "is_floating_point (Floating n) = True"
| "is_floating_point _ = False"

fun is_enum :: "cpp_type \<Rightarrow> bool" where
  "is_enum (Enumeration U) = True"
| "is_enum _ = False"

text \<open>
  \<^verbatim>\<open>std::underlying_type<T>::type\<close> exists for an enumeration only; naming it for
  another type does not compile.
\<close>

fun underlying_type :: "cpp_type \<Rightarrow> cpp_type option" where
  "underlying_type (Enumeration U) = Some U"
| "underlying_type _ = None"

text \<open>
  An enumeration of C++ has an integral underlying type. The datatype has more
  enumerations than that; \<open>well_formed\<close> holds of the types a program can declare.
\<close>

fun well_formed :: "cpp_type \<Rightarrow> bool" where
  "well_formed (Enumeration U) = is_integral U"
| "well_formed _ = True"

subsection \<open>The types of the header's compile-time tests\<close>

definition int8_t :: cpp_type where "int8_t = Integer 1 True"
definition int16_t :: cpp_type where "int16_t = Integer 2 True"
definition int32_t :: cpp_type where "int32_t = Integer 4 True"
definition int64_t :: cpp_type where "int64_t = Integer 8 True"
definition uint8_t :: cpp_type where "uint8_t = Integer 1 False"
definition uint16_t :: cpp_type where "uint16_t = Integer 2 False"
definition uint32_t :: cpp_type where "uint32_t = Integer 4 False"
definition uint64_t :: cpp_type where "uint64_t = Integer 8 False"
definition float_t :: cpp_type where "float_t = Floating 4"
definition double_t :: cpp_type where "double_t = Floating 8"
definition long_double :: cpp_type where "long_double = Floating 16"
definition void_ptr :: cpp_type where "void_ptr = Pointer 8"
definition EnumInt8 :: cpp_type where "EnumInt8 = Enumeration int8_t"
definition EnumUInt32 :: cpp_type where "EnumUInt32 = Enumeration uint32_t"
definition EnumInt16 :: cpp_type where "EnumInt16 = Enumeration int16_t"
definition EnumUInt16 :: cpp_type where "EnumUInt16 = Enumeration uint16_t"

subsection \<open>namespace internal\<close>

text \<open>\<^verbatim>\<open>FloatToGDAL<FloatSize>\<close>, lines 81-89: the primary template last.\<close>

fun FloatToGDAL :: "nat \<Rightarrow> GDALDataType" where
  "FloatToGDAL FloatSize =
     (if FloatSize = 4 then GDT_Float32
      else if FloatSize = 8 then GDT_Float64
      else GDT_Unknown)"

text \<open>\<^verbatim>\<open>IntegralToGDAL<IntegralSize, IsSigned>\<close>, lines 94-114.\<close>

fun IntegralToGDAL :: "nat \<Rightarrow> bool \<Rightarrow> GDALDataType" where
  "IntegralToGDAL IntegralSize IsSigned =
     (if IntegralSize = 1 \<and> \<not> IsSigned then GDT_Byte
      else if IntegralSize = 1 \<and> IsSigned then GDT_Byte
      else if IntegralSize = 2 \<and> \<not> IsSigned then GDT_UInt16
      else if IntegralSize = 2 \<and> IsSigned then GDT_Int16
      else if IntegralSize = 4 \<and> \<not> IsSigned then GDT_UInt32
      else if IntegralSize = 4 \<and> IsSigned then GDT_Int32
      else GDT_Unknown)"

datatype compile_error =
    underlying_type_of_non_enum
  | enum_base_not_integral

text \<open>
  \<^verbatim>\<open>BuiltInToGDAL<IsIntegral, IsFloat, IsEnum, T>\<close>, lines 122-150. The three partial
  specialisations fix the flags; every other combination of flags falls to the primary
  template. The enumeration's specialisation asserts that the underlying type is
  integral and then instantiates the integral specialisation at it.
\<close>

function (sequential) BuiltInToGDAL ::
  "bool \<Rightarrow> bool \<Rightarrow> bool \<Rightarrow> cpp_type \<Rightarrow> compile_error + GDALDataType" where
  "BuiltInToGDAL True False False T = Inr (IntegralToGDAL (sizeof T) (is_signed T))"
| "BuiltInToGDAL False True False T = Inr (FloatToGDAL (sizeof T))"
| "BuiltInToGDAL False False True T =
     (case underlying_type T of
        None \<Rightarrow> Inl underlying_type_of_non_enum
      | Some UnderlyingType \<Rightarrow>
          if is_integral UnderlyingType
          then BuiltInToGDAL True False False UnderlyingType
          else Inl enum_base_not_integral)"
| "BuiltInToGDAL IsIntegral IsFloat IsEnum T = Inr GDT_Unknown"
  by pat_completeness auto
termination
  by (relation "measure (\<lambda>(IsIntegral, IsFloat, IsEnum, T). if IsEnum then 1 else 0)") auto

text \<open>\<^verbatim>\<open>internal::Convert<T>\<close>, lines 155-159.\<close>

definition internal_Convert :: "cpp_type \<Rightarrow> compile_error + GDALDataType" where
  "internal_Convert T = BuiltInToGDAL (is_integral T) (is_floating_point T) (is_enum T) T"

subsection \<open>The public template\<close>

text \<open>
  \<^verbatim>\<open>Convert<T>\<close>, lines 169-177, has two static members: \<^verbatim>\<open>value\<close> and
  \<^verbatim>\<open>is_recognized\<close>, the second computed from the first.
\<close>

definition Convert_value :: "cpp_type \<Rightarrow> compile_error + GDALDataType" where
  "Convert_value T = internal_Convert T"

definition Convert_is_recognized :: "cpp_type \<Rightarrow> compile_error + bool" where
  "Convert_is_recognized T =
     (case Convert_value T of
        Inl e \<Rightarrow> Inl e
      | Inr v \<Rightarrow> Inr (v \<noteq> GDT_Unknown))"

subsection \<open>The lookup table in the words of the specification\<close>

text \<open>
  The table as the specification enumerates it: five rows for an integral type, two for
  a floating-point type, and \<open>GDT_Unknown\<close> for every combination that is not listed.
  It is written from the specification, to be compared with \<open>Convert_value\<close>.
\<close>

definition spec_lookup_table :: "cpp_type \<Rightarrow> GDALDataType" where
  "spec_lookup_table T =
     (if is_integral T then
        (if sizeof T = 1 \<and> \<not> is_signed T then GDT_Byte
         else if sizeof T = 2 \<and> \<not> is_signed T then GDT_UInt16
         else if sizeof T = 2 \<and> is_signed T then GDT_Int16
         else if sizeof T = 4 \<and> \<not> is_signed T then GDT_UInt32
         else if sizeof T = 4 \<and> is_signed T then GDT_Int32
         else GDT_Unknown)
      else if is_floating_point T then
        (if sizeof T = 4 then GDT_Float32
         else if sizeof T = 8 then GDT_Float64
         else GDT_Unknown)
      else GDT_Unknown)"

text \<open>
  The same table with the row the header has besides: a 1-byte signed integral type is
  \<open>GDT_Byte\<close> too.
\<close>

definition lookup_row :: "cpp_type \<Rightarrow> GDALDataType" where
  "lookup_row T =
     (if is_integral T \<and> sizeof T = 1 \<and> is_signed T then GDT_Byte
      else spec_lookup_table T)"

text \<open>An enumeration is looked up at its underlying type, every other type at itself.\<close>

definition lookup_table :: "cpp_type \<Rightarrow> GDALDataType" where
  "lookup_table T =
     (case underlying_type T of
        None \<Rightarrow> lookup_row T
      | Some U \<Rightarrow> lookup_row U)"

text \<open>
  The signedness of the type that carries the values: the underlying type for an
  enumeration, the type itself otherwise.
\<close>

definition value_signedness :: "cpp_type \<Rightarrow> bool" where
  "value_signedness T =
     (case underlying_type T of
        None \<Rightarrow> is_signed T
      | Some U \<Rightarrow> is_signed U)"

text \<open>The width of a type in bits.\<close>

definition bit_width :: "cpp_type \<Rightarrow> nat" where
  "bit_width T = sizeof T * CHAR_BIT"

section \<open>Properties\<close>

lemmas test_types =
  int8_t_def int16_t_def int32_t_def int64_t_def uint8_t_def uint16_t_def uint32_t_def
  uint64_t_def float_t_def double_t_def long_double_def void_ptr_def EnumInt8_def
  EnumUInt32_def EnumInt16_def EnumUInt16_def

subsection \<open>What each branch of the dispatch computes\<close>

lemma Convert_value_integral:
  "is_integral T \<Longrightarrow> Convert_value T = Inr (IntegralToGDAL (sizeof T) (is_signed T))"
  by (cases T) (simp_all add: Convert_value_def internal_Convert_def)

lemma Convert_value_floating:
  "is_floating_point T \<Longrightarrow> Convert_value T = Inr (FloatToGDAL (sizeof T))"
  by (cases T) (simp_all add: Convert_value_def internal_Convert_def)

lemma Convert_value_enum:
  "Convert_value (Enumeration U) =
     (if is_integral U then Inr (IntegralToGDAL (sizeof U) (is_signed U))
      else Inl enum_base_not_integral)"
  by (simp add: Convert_value_def internal_Convert_def)

lemma Convert_value_other:
  "\<not> is_integral T \<Longrightarrow> \<not> is_floating_point T \<Longrightarrow> \<not> is_enum T \<Longrightarrow>
     Convert_value T = Inr GDT_Unknown"
  by (cases T) (simp_all add: Convert_value_def internal_Convert_def)

lemma is_recognized_of_value:
  "Convert_value T = Inr v \<Longrightarrow> Convert_is_recognized T = Inr (v \<noteq> GDT_Unknown)"
  by (simp add: Convert_is_recognized_def)

text \<open>The compile-time tests of the header's \<^verbatim>\<open>test\<close> namespace, lines 185-203.\<close>

lemma test_static_asserts:
  "Convert_value int8_t = Inr GDT_Byte"
  "Convert_value int16_t = Inr GDT_Int16"
  "Convert_value int32_t = Inr GDT_Int32"
  "Convert_value uint8_t = Inr GDT_Byte"
  "Convert_value uint16_t = Inr GDT_UInt16"
  "Convert_value uint32_t = Inr GDT_UInt32"
  "Convert_value float_t = Inr GDT_Float32"
  "Convert_value double_t = Inr GDT_Float64"
  "Convert_value void_ptr = Inr GDT_Unknown"
  "Convert_is_recognized void_ptr = Inr False"
  "Convert_is_recognized int8_t = Inr True"
  "Convert_value EnumInt8 = Inr GDT_Byte"
  "Convert_value EnumUInt32 = Inr GDT_UInt32"
  by (simp_all add: test_types Convert_is_recognized_def Convert_value_def
      internal_Convert_def)

lemma Convert_value_well_formed:
  "well_formed T \<Longrightarrow> Convert_value T = Inr (lookup_table T)"
proof (cases T)
  case (Enumeration U)
  assume "well_formed T"
  with Enumeration have int: "is_integral U" by simp
  then have "IntegralToGDAL (sizeof U) (is_signed U) = lookup_row U"
    by (simp add: lookup_row_def spec_lookup_table_def)
  with int Enumeration show ?thesis
    by (simp add: Convert_value_enum lookup_table_def)
qed (simp_all add: Convert_value_def internal_Convert_def lookup_table_def lookup_row_def
      spec_lookup_table_def)

subsection \<open>The lookup table\<close>

text \<open>
  C1, as stated: the mapping equals the table of five integral rows and two
  floating-point rows, and every combination that is not listed maps to \<open>GDT_Unknown\<close>.
  The header has a row more: \<^verbatim>\<open>IntegralToGDAL<1, true>\<close> (line 102) is \<open>GDT_Byte\<close>,
  so \<^verbatim>\<open>int8_t\<close>, which the stated table sends to \<open>GDT_Unknown\<close>, is \<open>GDT_Byte\<close>
  (the test of line 185); and an enumeration, which the stated table does not list
  either, gets the code of its underlying type (the test of line 203).
\<close>

theorem spec_lookup_table_counterexample:
  "is_integral int8_t \<and> sizeof int8_t = 1 \<and> is_signed int8_t \<and>
   spec_lookup_table int8_t = GDT_Unknown \<and> Convert_value int8_t = Inr GDT_Byte \<and>
   is_enum EnumUInt32 \<and>
   spec_lookup_table EnumUInt32 = GDT_Unknown \<and> Convert_value EnumUInt32 = Inr GDT_UInt32"
  by (simp add: test_types spec_lookup_table_def Convert_value_def internal_Convert_def)

text \<open>
  C1, amended: for every type that can be declared, \<^verbatim>\<open>Convert<T>::value\<close> is the
  entry of the table that has the stated seven rows and the row (1, signed) to
  \<open>GDT_Byte\<close>, read at the underlying type for an enumeration; every other combination
  is \<open>GDT_Unknown\<close>. In particular an 8-bit unsigned integral type is \<open>GDT_Byte\<close> and a
  4-byte floating-point type is \<open>GDT_Float32\<close>.
\<close>

theorem Convert_value_lookup_table:
  assumes "well_formed T"
  shows "Convert_value T = Inr (lookup_table T) \<and>
    (is_integral T \<and> \<not> is_signed T \<and> bit_width T = 8 \<longrightarrow> Convert_value T = Inr GDT_Byte) \<and>
    (is_floating_point T \<and> sizeof T = 4 \<longrightarrow> Convert_value T = Inr GDT_Float32)"
proof (intro conjI impI)
  show "Convert_value T = Inr (lookup_table T)"
    using assms by (rule Convert_value_well_formed)
next
  assume "is_integral T \<and> \<not> is_signed T \<and> bit_width T = 8"
  then show "Convert_value T = Inr GDT_Byte"
    by (simp add: Convert_value_integral bit_width_def CHAR_BIT_def)
next
  assume "is_floating_point T \<and> sizeof T = 4"
  then show "Convert_value T = Inr GDT_Float32"
    by (simp add: Convert_value_floating)
qed

theorem Convert_value_lookup_table_witness:
  "well_formed int8_t \<and> Convert_value int8_t = Inr GDT_Byte \<and>
   well_formed EnumUInt32 \<and> Convert_value EnumUInt32 = Inr GDT_UInt32 \<and>
   well_formed uint8_t \<and> is_integral uint8_t \<and> \<not> is_signed uint8_t \<and> bit_width uint8_t = 8 \<and>
   Convert_value uint8_t = Inr GDT_Byte \<and>
   well_formed float_t \<and> is_floating_point float_t \<and> sizeof float_t = 4 \<and>
   Convert_value float_t = Inr GDT_Float32 \<and>
   well_formed int64_t \<and> Convert_value int64_t = Inr GDT_Unknown"
  using Convert_value_lookup_table [of int8_t] Convert_value_lookup_table [of EnumUInt32]
    Convert_value_lookup_table [of uint8_t] Convert_value_lookup_table [of float_t]
    Convert_value_lookup_table [of int64_t]
  by (simp add: test_types lookup_table_def lookup_row_def spec_lookup_table_def
      bit_width_def CHAR_BIT_def)

subsection \<open>Types that are not recognised\<close>

text \<open>
  C2: a type that is not integral, not floating-point and not an enumeration (a pointer
  such as \<^verbatim>\<open>void*\<close>, a class) instantiates without an error, its value is
  \<open>GDT_Unknown\<close> and \<^verbatim>\<open>is_recognized\<close> is false.
\<close>

theorem not_built_in_is_Unknown:
  assumes "\<not> is_integral T" and "\<not> is_floating_point T" and "\<not> is_enum T"
  shows "Convert_value T = Inr GDT_Unknown \<and> Convert_is_recognized T = Inr False"
  using assms by (simp add: Convert_value_other Convert_is_recognized_def)

theorem not_built_in_is_Unknown_witness:
  "\<not> is_integral void_ptr \<and> \<not> is_floating_point void_ptr \<and> \<not> is_enum void_ptr \<and>
   Convert_value void_ptr = Inr GDT_Unknown \<and> Convert_is_recognized void_ptr = Inr False"
  using not_built_in_is_Unknown [of void_ptr] by (simp add: void_ptr_def)

subsection \<open>Enumerations\<close>

text \<open>
  C3: an enumeration \<open>E\<close> whose underlying type \<open>U\<close> is integral has the value of \<open>U\<close>,
  and that value is the pixel code of \<open>U\<close>'s size and signedness: \<open>GDT_Byte\<close> for one
  byte (an enumeration over \<^verbatim>\<open>int8_t\<close>), \<open>GDT_UInt16\<close> and \<open>GDT_Int16\<close> for two
  bytes, \<open>GDT_UInt32\<close> (an enumeration over \<^verbatim>\<open>uint32_t\<close>) and \<open>GDT_Int32\<close> for
  four, and \<open>GDT_Unknown\<close> for any other size.
\<close>

theorem enum_maps_as_underlying_type:
  assumes "is_enum E" and "underlying_type E = Some U" and "is_integral U"
  shows "Convert_value E = Convert_value U \<and>
    Convert_value E = Inr (IntegralToGDAL (sizeof U) (is_signed U)) \<and>
    (sizeof U = 1 \<longrightarrow> Convert_value E = Inr GDT_Byte) \<and>
    (sizeof U = 2 \<and> \<not> is_signed U \<longrightarrow> Convert_value E = Inr GDT_UInt16) \<and>
    (sizeof U = 2 \<and> is_signed U \<longrightarrow> Convert_value E = Inr GDT_Int16) \<and>
    (sizeof U = 4 \<and> \<not> is_signed U \<longrightarrow> Convert_value E = Inr GDT_UInt32) \<and>
    (sizeof U = 4 \<and> is_signed U \<longrightarrow> Convert_value E = Inr GDT_Int32) \<and>
    (sizeof U \<notin> {1, 2, 4} \<longrightarrow> Convert_value E = Inr GDT_Unknown)"
proof -
  from assms(2) have E: "E = Enumeration U" by (cases E) simp_all
  with assms(3) have enum: "Convert_value E = Inr (IntegralToGDAL (sizeof U) (is_signed U))"
    by (simp add: Convert_value_enum)
  from assms(3) have "Convert_value U = Inr (IntegralToGDAL (sizeof U) (is_signed U))"
    by (rule Convert_value_integral)
  with enum have same: "Convert_value E = Convert_value U" by simp
  from enum have rows:
    "sizeof U = 1 \<longrightarrow> Convert_value E = Inr GDT_Byte"
    "sizeof U = 2 \<and> \<not> is_signed U \<longrightarrow> Convert_value E = Inr GDT_UInt16"
    "sizeof U = 2 \<and> is_signed U \<longrightarrow> Convert_value E = Inr GDT_Int16"
    "sizeof U = 4 \<and> \<not> is_signed U \<longrightarrow> Convert_value E = Inr GDT_UInt32"
    "sizeof U = 4 \<and> is_signed U \<longrightarrow> Convert_value E = Inr GDT_Int32"
    "sizeof U \<notin> {1, 2, 4} \<longrightarrow> Convert_value E = Inr GDT_Unknown"
    by simp_all
  from same enum rows show ?thesis by blast
qed

theorem enum_maps_as_underlying_type_witness:
  "is_enum EnumInt8 \<and> underlying_type EnumInt8 = Some int8_t \<and> is_integral int8_t \<and>
   Convert_value EnumInt8 = Convert_value int8_t \<and>
   Convert_value EnumInt8 = Inr GDT_Byte \<and>
   is_enum EnumUInt32 \<and> underlying_type EnumUInt32 = Some uint32_t \<and> is_integral uint32_t \<and>
   Convert_value EnumUInt32 = Convert_value uint32_t \<and>
   Convert_value EnumUInt32 = Inr GDT_UInt32 \<and>
   is_enum EnumInt16 \<and> underlying_type EnumInt16 = Some int16_t \<and> is_integral int16_t \<and>
   Convert_value EnumInt16 = Convert_value int16_t \<and>
   Convert_value EnumInt16 = Inr GDT_Int16"
  using enum_maps_as_underlying_type [of EnumInt8 int8_t]
    enum_maps_as_underlying_type [of EnumUInt32 uint32_t]
    enum_maps_as_underlying_type [of EnumInt16 int16_t]
  by (auto simp add: EnumInt8_def EnumUInt32_def EnumInt16_def int8_t_def uint32_t_def
      int16_t_def)

subsection \<open>Recognised or not\<close>

text \<open>
  C4: \<^verbatim>\<open>is_recognized\<close> is true exactly when \<^verbatim>\<open>value\<close> is not \<open>GDT_Unknown\<close> and
  false exactly when it is; it is a truth value and tells nothing more.
\<close>

theorem is_recognized_iff_not_Unknown:
  "(Convert_is_recognized T = Inr True) = (\<exists>v. Convert_value T = Inr v \<and> v \<noteq> GDT_Unknown) \<and>
   (Convert_is_recognized T = Inr False) = (Convert_value T = Inr GDT_Unknown)"
  by (cases "Convert_value T") (simp_all add: Convert_is_recognized_def)

subsection \<open>Which widths are recognised\<close>

text \<open>
  C5, as stated: every integer type, every floating-point type and every enumeration is
  recognised, whatever its width. The header has specialisations for the widths 1, 2
  and 4 of an integral type and 4 and 8 of a floating-point type only, and the primary
  templates (lines 83 and 96) answer \<open>GDT_Unknown\<close> for every other width: an 8-byte
  integer is not recognised.
\<close>

theorem every_width_recognized_counterexample:
  "is_integral int64_t \<and> sizeof int64_t = 8 \<and>
   Convert_value int64_t = Inr GDT_Unknown \<and> Convert_is_recognized int64_t = Inr False"
  by (simp add: int64_t_def Convert_is_recognized_def Convert_value_def internal_Convert_def)

text \<open>
  C5, amended: a type that can be declared is recognised exactly when it is an integral
  type of 1, 2 or 4 bytes, an enumeration whose underlying integral type has 1, 2 or 4
  bytes, or a floating-point type of 4 or 8 bytes.
\<close>

theorem recognized_widths:
  assumes "well_formed T"
  shows "Convert_is_recognized T =
    Inr ((is_integral T \<or> is_enum T) \<and> sizeof T \<in> {1, 2, 4} \<or>
         is_floating_point T \<and> sizeof T \<in> {4, 8})"
proof (cases T)
  case (Enumeration U)
  with assms have "is_integral U" by simp
  with Enumeration show ?thesis
    by (simp add: Convert_is_recognized_def Convert_value_enum)
qed (simp_all add: Convert_is_recognized_def Convert_value_def internal_Convert_def)

theorem recognized_widths_witness:
  "well_formed int32_t \<and> Convert_is_recognized int32_t = Inr True \<and>
   well_formed double_t \<and> Convert_is_recognized double_t = Inr True \<and>
   well_formed EnumInt8 \<and> Convert_is_recognized EnumInt8 = Inr True \<and>
   well_formed uint64_t \<and> Convert_is_recognized uint64_t = Inr False \<and>
   well_formed long_double \<and> Convert_is_recognized long_double = Inr False"
  using recognized_widths [of int32_t] recognized_widths [of double_t]
    recognized_widths [of EnumInt8] recognized_widths [of uint64_t]
    recognized_widths [of long_double]
  by (simp add: test_types)

subsection \<open>The value as a function of the type's metadata\<close>

text \<open>
  C6, as stated: two types of the same size, the same signedness and the same
  classification have the same value. \<^verbatim>\<open>std::is_signed\<close> is false for every
  enumeration, and the header reads the signedness of the underlying type instead
  (lines 143 and 149): two 2-byte enumerations, one over \<^verbatim>\<open>int16_t\<close> and one over
  \<^verbatim>\<open>uint16_t\<close>, agree on all of the metadata and differ in the value.
\<close>

theorem same_metadata_counterexample:
  "sizeof EnumInt16 = sizeof EnumUInt16 \<and>
   is_signed EnumInt16 = is_signed EnumUInt16 \<and>
   is_integral EnumInt16 = is_integral EnumUInt16 \<and>
   is_floating_point EnumInt16 = is_floating_point EnumUInt16 \<and>
   is_enum EnumInt16 = is_enum EnumUInt16 \<and>
   Convert_value EnumInt16 = Inr GDT_Int16 \<and>
   Convert_value EnumUInt16 = Inr GDT_UInt16 \<and>
   Convert_value EnumInt16 \<noteq> Convert_value EnumUInt16"
  by (simp add: test_types Convert_value_def internal_Convert_def)

text \<open>
  C6, amended: two types that can be declared, of the same size, the same
  classification and the same signedness, where the signedness of an enumeration is
  that of its underlying type, have the same value.
\<close>

theorem same_descriptor_same_value:
  assumes "well_formed T1" and "well_formed T2"
    and "sizeof T1 = sizeof T2"
    and "value_signedness T1 = value_signedness T2"
    and "is_integral T1 = is_integral T2"
    and "is_floating_point T1 = is_floating_point T2"
    and "is_enum T1 = is_enum T2"
  shows "Convert_value T1 = Convert_value T2"
proof -
  have row: "lookup_table T =
      (if is_floating_point T then FloatToGDAL (sizeof T)
       else if is_integral T \<or> is_enum T
         then IntegralToGDAL (sizeof T) (value_signedness T)
       else GDT_Unknown)" if "well_formed T" for T
    using that
    by (cases T)
      (auto simp add: lookup_table_def lookup_row_def spec_lookup_table_def
        value_signedness_def)
  from assms have "lookup_table T1 = lookup_table T2"
    by (simp add: row)
  with assms(1,2) show ?thesis
    by (simp add: Convert_value_well_formed)
qed

theorem same_descriptor_same_value_witness:
  "well_formed Bool \<and> well_formed uint8_t \<and> sizeof Bool = sizeof uint8_t \<and>
   value_signedness Bool = value_signedness uint8_t \<and>
   is_integral Bool = is_integral uint8_t \<and>
   is_floating_point Bool = is_floating_point uint8_t \<and>
   is_enum Bool = is_enum uint8_t \<and> Bool \<noteq> uint8_t \<and>
   Convert_value Bool = Convert_value uint8_t"
  using same_descriptor_same_value [of Bool uint8_t]
  by (simp add: uint8_t_def value_signedness_def)

subsection \<open>One-byte integral types\<close>

text \<open>
  C7: an integral type of one byte is \<open>GDT_Byte\<close>, signed or not; \<^verbatim>\<open>int8_t\<close> maps
  like \<^verbatim>\<open>uint8_t\<close>.
\<close>

theorem one_byte_integral_is_Byte:
  assumes "is_integral T" and "sizeof T = 1"
  shows "Convert_value T = Inr GDT_Byte"
  using assms by (simp add: Convert_value_integral)

theorem one_byte_integral_is_Byte_witness:
  "is_integral int8_t \<and> sizeof int8_t = 1 \<and> is_signed int8_t \<and>
   Convert_value int8_t = Inr GDT_Byte \<and>
   is_integral uint8_t \<and> sizeof uint8_t = 1 \<and> \<not> is_signed uint8_t \<and>
   Convert_value uint8_t = Inr GDT_Byte"
  using one_byte_integral_is_Byte [of int8_t] one_byte_integral_is_Byte [of uint8_t]
  by (simp add: int8_t_def uint8_t_def)

subsection \<open>The range of the mapping\<close>

text \<open>
  C8: for every type that can be declared the instantiation succeeds and the value is
  one of the eight codes the header names; no complex pixel code is produced.
\<close>

theorem Convert_value_range:
  assumes "well_formed T"
  shows "Convert_value T \<in> Inr ` {GDT_Unknown, GDT_Byte, GDT_UInt16, GDT_Int16,
    GDT_UInt32, GDT_Int32, GDT_Float32, GDT_Float64}"
proof (cases T)
  case (Enumeration U)
  with assms have "is_integral U" by simp
  with Enumeration show ?thesis
    by (simp add: Convert_value_enum)
qed (simp_all add: Convert_value_def internal_Convert_def)

theorem Convert_value_range_witness:
  "well_formed uint64_t \<and>
   Convert_value uint64_t \<in> Inr ` {GDT_Unknown, GDT_Byte, GDT_UInt16, GDT_Int16,
     GDT_UInt32, GDT_Int32, GDT_Float32, GDT_Float64} \<and>
   Convert_value uint64_t \<notin> Inr ` {GDT_CInt16, GDT_CInt32, GDT_CFloat32, GDT_CFloat64,
     GDT_TypeCount}"
proof -
  have wf: "well_formed uint64_t" by (simp add: uint64_t_def)
  from Convert_value_range [OF wf] wf show ?thesis by auto
qed

subsection \<open>The boolean type\<close>

text \<open>
  C9: \<^verbatim>\<open>bool\<close> is integral, unsigned and of one byte, so it takes the row
  \<^verbatim>\<open>IntegralToGDAL<1, false>\<close>: its value is \<open>GDT_Byte\<close> and it is recognised.
\<close>

theorem bool_is_Byte:
  "Convert_value Bool = Inr (IntegralToGDAL 1 False) \<and>
   Convert_value Bool = Inr GDT_Byte \<and> Convert_is_recognized Bool = Inr True"
  by (simp add: Convert_is_recognized_def Convert_value_def internal_Convert_def)

end
